theory Spec2Isabelle
  imports Main "HOL-Library.Word" "HOL-Library.Monad_Syntax"
begin

unbundle bit_operations_syntax

section \<open>Data model\<close>

text \<open>
  A field element is the Go array \<^verbatim>\<open>[9]uint32\<close>, a wide element the array
  \<^verbatim>\<open>[17]uint64\<close>; both are lists of machine words here, and the reduction buffer
  \<^verbatim>\<open>[10]uint64\<close> is a list of ten 64-bit words.  Arithmetic on words wraps around
  as Go's unsigned arithmetic does.  Values of \<^verbatim>\<open>*big.Int\<close> are integers.
  An index that Go would reject at run time (a panic) makes the function return
  \<open>None\<close>.
\<close>

type_synonym sm2P256FieldElement = "32 word list"
type_synonym sm2P256LargeFieldElement = "64 word list"

abbreviation uint64 :: "32 word \<Rightarrow> 64 word" where
  "uint64 \<equiv> ucast"

abbreviation uint32 :: "64 word \<Rightarrow> 32 word" where
  "uint32 \<equiv> ucast"

definition bottom28BitsMask :: "'a::len word" where
  "bottom28BitsMask = 0xFFFFFFF"

definition bottom29BitsMask :: "'a::len word" where
  "bottom29BitsMask = 0x1FFFFFFF"

definition bottom32BitsMask :: "'a::len word" where
  "bottom32BitsMask = 0xFFFFFFFF"

definition bottom57BitsMask :: "64 word" where
  "bottom57BitsMask = 0x1FFFFFFFFFFFFFF"

definition twoPower57 :: "64 word" where
  "twoPower57 = 0x200000000000000"

subsection \<open>Curve parameters (initP256Sm2)\<close>

definition sm2P256_A :: int where
  "sm2P256_A = 0xFFFFFFFEFFFFFFFFFFFFFFFFFFFFFFFFFFFFFFFF00000000FFFFFFFFFFFFFFFC"

definition sm2P256_P :: int where
  "sm2P256_P = 0xFFFFFFFEFFFFFFFFFFFFFFFFFFFFFFFFFFFFFFFF00000000FFFFFFFFFFFFFFFF"

definition sm2P256_N :: int where
  "sm2P256_N = 0xFFFFFFFEFFFFFFFFFFFFFFFFFFFFFFFF7203DF6B21C6052B53BBF40939D54123"

definition sm2P256_B :: int where
  "sm2P256_B = 0x28E9FA9E9D9F5E344D5A9E4BCF6509A7F39789F515AB8F92DDBCBD414D940E93"

definition sm2P256_Gx :: int where
  "sm2P256_Gx = 0x32C4AE2C1F1981195F9904466A39C9948FE30BBFF2660BE1715A4589334C74C7"

definition sm2P256_Gy :: int where
  "sm2P256_Gy = 0xBC3736A2F4F6779C59BDCEE36B692153D0A9877CC62A474002DF32E52139F0A0"

definition sm2P256_RInverse :: int where
  "sm2P256_RInverse = 0x7ffffffd80000002fffffffe000000017ffffffe800000037ffffffc80000002"

subsection \<open>Conversion between big integers and field elements\<close>

definition getBottomNBitsMask :: "nat \<Rightarrow> 32 word" where
  "getBottomNBitsMask n =
     (if n = 28 then bottom28BitsMask
      else if n = 29 then bottom29BitsMask
      else 0)"

text \<open>
  \<^verbatim>\<open>x.Bits()\<close> is the little-endian word list of the absolute value of \<open>x\<close>, empty
  for zero; its first word, cut to 32 bits, is \<open>\<bar>x\<bar> mod 2^32\<close>.
\<close>

definition getBottomNBits :: "int \<Rightarrow> nat \<Rightarrow> 32 word" where
  "getBottomNBits x n =
     (if \<bar>x\<bar> \<noteq> 0 then word_of_int \<bar>x\<bar> AND getBottomNBitsMask n else 0)"

definition getBottom29Bits :: "int \<Rightarrow> 32 word" where
  "getBottom29Bits x = getBottomNBits x 29"

definition getBottom28Bits :: "int \<Rightarrow> 32 word" where
  "getBottom28Bits x = getBottomNBits x 28"

text \<open>The loop \<^verbatim>\<open>for i < 8\<close> of sm2P256FromBigPlain; \<^verbatim>\<open>x.Rsh(x, k)\<close> is \<open>x div 2^k\<close>.\<close>

function sm2P256FromBigPlain_loop ::
  "sm2P256FieldElement \<Rightarrow> int \<Rightarrow> nat \<Rightarrow> sm2P256FieldElement" where
  "sm2P256FromBigPlain_loop X x i =
     (if i < 8 then
        (let X = X[i := getBottom28Bits x];
             x = x div 2 ^ 28;
             i = i + 1;
             X = X[i := getBottom29Bits x];
             x = x div 2 ^ 29;
             i = i + 1
         in sm2P256FromBigPlain_loop X x i)
      else X)"
  by pat_completeness auto
termination
  by (relation "measure (\<lambda>(X, x, i). 8 - i)") auto

definition sm2P256FromBigPlain :: "sm2P256FieldElement \<Rightarrow> int \<Rightarrow> sm2P256FieldElement" where
  "sm2P256FromBigPlain X x =
     (let X = X[0 := getBottom29Bits x];
          x = x div 2 ^ 29
      in sm2P256FromBigPlain_loop X x 1)"

definition sm2P256FromBig :: "sm2P256FieldElement \<Rightarrow> int \<Rightarrow> sm2P256FieldElement" where
  "sm2P256FromBig X a =
     (let x = a * 2 ^ 257;
          x = x mod sm2P256_P
      in sm2P256FromBigPlain X x)"

text \<open>The loop \<^verbatim>\<open>for i >= 0\<close> of sm2P256ToBigPlain, \<open>i\<close> a signed Go int.\<close>

function sm2P256ToBigPlain_loop :: "sm2P256FieldElement \<Rightarrow> int \<Rightarrow> int \<Rightarrow> int" where
  "sm2P256ToBigPlain_loop X i r =
     (if i \<ge> 0 then
        (let r = r * 2 ^ 28;
             tm = uint (X ! nat i);
             r = r + tm;
             i = i - 1;
             r = r * 2 ^ 29;
             tm = uint (X ! nat i);
             r = r + tm;
             i = i - 1
         in sm2P256ToBigPlain_loop X i r)
      else r)"
  by pat_completeness auto
termination
  by (relation "measure (\<lambda>(X, i, r). nat (i + 1))") auto

definition sm2P256ToBigPlain :: "sm2P256FieldElement \<Rightarrow> int" where
  "sm2P256ToBigPlain X = sm2P256ToBigPlain_loop X 7 (uint (X ! 8))"

definition sm2P256ToBig :: "sm2P256FieldElement \<Rightarrow> int" where
  "sm2P256ToBig X =
     (let r = sm2P256ToBigPlain X;
          r = r * sm2P256_RInverse;
          r = r mod sm2P256_P
      in r)"

subsection \<open>Tables\<close>

definition sm2P256Carry :: "32 word list" where
  "sm2P256Carry = [
     0x0, 0x0, 0x0, 0x0, 0x0, 0x0, 0x0, 0x0, 0x0,
     0x2, 0x0, 0x1FFFFF00, 0x7FF, 0x0, 0x0, 0x0, 0x2000000, 0x0,
     0x4, 0x0, 0x1FFFFE00, 0xFFF, 0x0, 0x0, 0x0, 0x4000000, 0x0,
     0x6, 0x0, 0x1FFFFD00, 0x17FF, 0x0, 0x0, 0x0, 0x6000000, 0x0,
     0x8, 0x0, 0x1FFFFC00, 0x1FFF, 0x0, 0x0, 0x0, 0x8000000, 0x0,
     0xA, 0x0, 0x1FFFFB00, 0x27FF, 0x0, 0x0, 0x0, 0xA000000, 0x0,
     0xC, 0x0, 0x1FFFFA00, 0x2FFF, 0x0, 0x0, 0x0, 0xC000000, 0x0,
     0xE, 0x0, 0x1FFFF900, 0x37FF, 0x0, 0x0, 0x0, 0xE000000, 0x0]"

definition sm2P256Zero31 :: sm2P256FieldElement where
  "sm2P256Zero31 = [0x7FFFFFF8, 0x3FFFFFFC, 0x800003FC, 0x3FFFDFFC, 0x7FFFFFFC,
     0x3FFFFFFC, 0x7FFFFFFC, 0x37FFFFFC, 0x7FFFFFFC]"

definition pv :: "32 word list" where
  "pv = [0x1ffffffe, 0xfffffff, 0x200000ff, 0xffff7ff, 0x1fffffff, 0xfffffff,
     0x1fffffff, 0xdffffff, 0x1fffffff]"

section \<open>Field arithmetic\<close>

text \<open>
  sm2P256ReduceCarry reads \<^verbatim>\<open>sm2P256Carry[carry*9+k]\<close> for \<open>k = 0, 2, 3, 7\<close>; the
  index is computed in \<^verbatim>\<open>uint32\<close> and a read outside the 72 entries panics.
\<close>

definition sm2P256ReduceCarry ::
  "sm2P256FieldElement \<Rightarrow> 32 word \<Rightarrow> sm2P256FieldElement option" where
  "sm2P256ReduceCarry a carry =
     (if list_all (\<lambda>k. unat (carry * 9 + k) < length sm2P256Carry) [0, 2, 3, 7] then
        (let a = a[0 := a ! 0 + sm2P256Carry ! unat (carry * 9 + 0)];
             a = a[2 := a ! 2 + sm2P256Carry ! unat (carry * 9 + 2)];
             a = a[3 := a ! 3 + sm2P256Carry ! unat (carry * 9 + 3)];
             a = a[7 := a ! 7 + sm2P256Carry ! unat (carry * 9 + 7)]
         in Some a)
      else None)"

definition sm2P256Add ::
  "sm2P256FieldElement \<Rightarrow> sm2P256FieldElement \<Rightarrow> sm2P256FieldElement option" where
  "sm2P256Add a b =
     (let carry = (0 :: 32 word);
       c0 = a ! 0 + b ! 0;
       c0 = c0 + carry;
       carry = drop_bit 29 c0;
       c0 = c0 AND bottom29BitsMask;
       c1 = a ! 1 + b ! 1;
       c1 = c1 + carry;
       carry = drop_bit 28 c1;
       c1 = c1 AND bottom28BitsMask;
       c2 = a ! 2 + b ! 2;
       c2 = c2 + carry;
       carry = drop_bit 29 c2;
       c2 = c2 AND bottom29BitsMask;
       c3 = a ! 3 + b ! 3;
       c3 = c3 + carry;
       carry = drop_bit 28 c3;
       c3 = c3 AND bottom28BitsMask;
       c4 = a ! 4 + b ! 4;
       c4 = c4 + carry;
       carry = drop_bit 29 c4;
       c4 = c4 AND bottom29BitsMask;
       c5 = a ! 5 + b ! 5;
       c5 = c5 + carry;
       carry = drop_bit 28 c5;
       c5 = c5 AND bottom28BitsMask;
       c6 = a ! 6 + b ! 6;
       c6 = c6 + carry;
       carry = drop_bit 29 c6;
       c6 = c6 AND bottom29BitsMask;
       c7 = a ! 7 + b ! 7;
       c7 = c7 + carry;
       carry = drop_bit 28 c7;
       c7 = c7 AND bottom28BitsMask;
       c8 = a ! 8 + b ! 8;
       c8 = c8 + carry;
       carry = drop_bit 29 c8;
       c8 = c8 AND bottom29BitsMask
      in sm2P256ReduceCarry [c0, c1, c2, c3, c4, c5, c6, c7, c8] carry)"

definition sm2P256Sub ::
  "sm2P256FieldElement \<Rightarrow> sm2P256FieldElement \<Rightarrow> sm2P256FieldElement option" where
  "sm2P256Sub a b =
     (let carry = (0 :: 32 word);
       c0 = a ! 0 - b ! 0;
       c0 = c0 + sm2P256Zero31 ! 0;
       c0 = c0 + carry;
       carry = drop_bit 29 c0;
       c0 = c0 AND bottom29BitsMask;
       c1 = a ! 1 - b ! 1;
       c1 = c1 + sm2P256Zero31 ! 1;
       c1 = c1 + carry;
       carry = drop_bit 28 c1;
       c1 = c1 AND bottom28BitsMask;
       c2 = a ! 2 - b ! 2;
       c2 = c2 + sm2P256Zero31 ! 2;
       c2 = c2 + carry;
       carry = drop_bit 29 c2;
       c2 = c2 AND bottom29BitsMask;
       c3 = a ! 3 - b ! 3;
       c3 = c3 + sm2P256Zero31 ! 3;
       c3 = c3 + carry;
       carry = drop_bit 28 c3;
       c3 = c3 AND bottom28BitsMask;
       c4 = a ! 4 - b ! 4;
       c4 = c4 + sm2P256Zero31 ! 4;
       c4 = c4 + carry;
       carry = drop_bit 29 c4;
       c4 = c4 AND bottom29BitsMask;
       c5 = a ! 5 - b ! 5;
       c5 = c5 + sm2P256Zero31 ! 5;
       c5 = c5 + carry;
       carry = drop_bit 28 c5;
       c5 = c5 AND bottom28BitsMask;
       c6 = a ! 6 - b ! 6;
       c6 = c6 + sm2P256Zero31 ! 6;
       c6 = c6 + carry;
       carry = drop_bit 29 c6;
       c6 = c6 AND bottom29BitsMask;
       c7 = a ! 7 - b ! 7;
       c7 = c7 + sm2P256Zero31 ! 7;
       c7 = c7 + carry;
       carry = drop_bit 28 c7;
       c7 = c7 AND bottom28BitsMask;
       c8 = a ! 8 - b ! 8;
       c8 = c8 + sm2P256Zero31 ! 8;
       c8 = c8 + carry;
       carry = drop_bit 29 c8;
       c8 = c8 AND bottom29BitsMask
      in sm2P256ReduceCarry [c0, c1, c2, c3, c4, c5, c6, c7, c8] carry)"

text \<open>The 17-limb array \<^verbatim>\<open>tmp\<close> that the body of sm2P256Mul fills before it reduces.\<close>

definition sm2P256Mul_tmp ::
  "sm2P256FieldElement \<Rightarrow> sm2P256FieldElement \<Rightarrow> sm2P256LargeFieldElement" where
  "sm2P256Mul_tmp a b = [
     \<comment> \<open>tmp[0]\<close> uint64 (a ! 0) * uint64 (b ! 0),
     \<comment> \<open>tmp[1]\<close> uint64 (a ! 0) * uint64 (b ! 1) + uint64 (a ! 1) * uint64 (b ! 0),
     \<comment> \<open>tmp[2]\<close> uint64 (a ! 0) * uint64 (b ! 2) + uint64 (a ! 1) * push_bit 1 (uint64 (b ! 1)) + uint64 (a ! 2) * uint64 (b ! 0),
     \<comment> \<open>tmp[3]\<close> uint64 (a ! 0) * uint64 (b ! 3) + uint64 (a ! 1) * uint64 (b ! 2) + uint64 (a ! 2) * uint64 (b ! 1) + uint64 (a ! 3) * uint64 (b ! 0),
     \<comment> \<open>tmp[4]\<close> push_bit 1 (uint64 (a ! 1) * uint64 (b ! 3) + uint64 (a ! 3) * uint64 (b ! 1)) + uint64 (a ! 0) * uint64 (b ! 4) + uint64 (a ! 2) * uint64 (b ! 2) + uint64 (a ! 4) * uint64 (b ! 0),
     \<comment> \<open>tmp[5]\<close> uint64 (a ! 0) * uint64 (b ! 5) + uint64 (a ! 1) * uint64 (b ! 4) + uint64 (a ! 2) * uint64 (b ! 3) + uint64 (a ! 3) * uint64 (b ! 2) + uint64 (a ! 4) * uint64 (b ! 1) + uint64 (a ! 5) * uint64 (b ! 0),
     \<comment> \<open>tmp[6]\<close> push_bit 1 (uint64 (a ! 1) * uint64 (b ! 5) + uint64 (a ! 3) * uint64 (b ! 3) + uint64 (a ! 5) * uint64 (b ! 1)) + uint64 (a ! 0) * uint64 (b ! 6) + uint64 (a ! 2) * uint64 (b ! 4) + uint64 (a ! 4) * uint64 (b ! 2) + uint64 (a ! 6) * uint64 (b ! 0),
     \<comment> \<open>tmp[7]\<close> uint64 (a ! 0) * uint64 (b ! 7) + uint64 (a ! 1) * uint64 (b ! 6) + uint64 (a ! 2) * uint64 (b ! 5) + uint64 (a ! 3) * uint64 (b ! 4) + uint64 (a ! 4) * uint64 (b ! 3) + uint64 (a ! 5) * uint64 (b ! 2) + uint64 (a ! 6) * uint64 (b ! 1) + uint64 (a ! 7) * uint64 (b ! 0),
     \<comment> \<open>tmp[8]\<close> push_bit 1 (uint64 (a ! 1) * uint64 (b ! 7) + uint64 (a ! 3) * uint64 (b ! 5) + uint64 (a ! 5) * uint64 (b ! 3) + uint64 (a ! 7) * uint64 (b ! 1)) + uint64 (a ! 0) * uint64 (b ! 8) + uint64 (a ! 2) * uint64 (b ! 6) + uint64 (a ! 4) * uint64 (b ! 4) + uint64 (a ! 6) * uint64 (b ! 2) + uint64 (a ! 8) * uint64 (b ! 0),
     \<comment> \<open>tmp[9]\<close> uint64 (a ! 1) * uint64 (b ! 8) + uint64 (a ! 2) * uint64 (b ! 7) + uint64 (a ! 3) * uint64 (b ! 6) + uint64 (a ! 4) * uint64 (b ! 5) + uint64 (a ! 5) * uint64 (b ! 4) + uint64 (a ! 6) * uint64 (b ! 3) + uint64 (a ! 7) * uint64 (b ! 2) + uint64 (a ! 8) * uint64 (b ! 1),
     \<comment> \<open>tmp[10]\<close> push_bit 1 (uint64 (a ! 3) * uint64 (b ! 7) + uint64 (a ! 5) * uint64 (b ! 5) + uint64 (a ! 7) * uint64 (b ! 3)) + uint64 (a ! 2) * uint64 (b ! 8) + uint64 (a ! 4) * uint64 (b ! 6) + uint64 (a ! 6) * uint64 (b ! 4) + uint64 (a ! 8) * uint64 (b ! 2),
     \<comment> \<open>tmp[11]\<close> uint64 (a ! 3) * uint64 (b ! 8) + uint64 (a ! 4) * uint64 (b ! 7) + uint64 (a ! 5) * uint64 (b ! 6) + uint64 (a ! 6) * uint64 (b ! 5) + uint64 (a ! 7) * uint64 (b ! 4) + uint64 (a ! 8) * uint64 (b ! 3),
     \<comment> \<open>tmp[12]\<close> push_bit 1 (uint64 (a ! 5) * uint64 (b ! 7) + uint64 (a ! 7) * uint64 (b ! 5)) + uint64 (a ! 4) * uint64 (b ! 8) + uint64 (a ! 6) * uint64 (b ! 6) + uint64 (a ! 8) * uint64 (b ! 4),
     \<comment> \<open>tmp[13]\<close> uint64 (a ! 5) * uint64 (b ! 8) + uint64 (a ! 6) * uint64 (b ! 7) + uint64 (a ! 7) * uint64 (b ! 6) + uint64 (a ! 8) * uint64 (b ! 5),
     \<comment> \<open>tmp[14]\<close> uint64 (a ! 6) * uint64 (b ! 8) + push_bit 1 (uint64 (a ! 7) * uint64 (b ! 7)) + uint64 (a ! 8) * uint64 (b ! 6),
     \<comment> \<open>tmp[15]\<close> uint64 (a ! 7) * uint64 (b ! 8) + uint64 (a ! 8) * uint64 (b ! 7),
     \<comment> \<open>tmp[16]\<close> uint64 (a ! 8) * uint64 (b ! 8)]"

text \<open>The 17-limb array \<^verbatim>\<open>tmp\<close> that the body of sm2P256Square fills.\<close>

definition sm2P256Square_tmp :: "sm2P256FieldElement \<Rightarrow> sm2P256LargeFieldElement" where
  "sm2P256Square_tmp a = [
     \<comment> \<open>tmp[0]\<close> uint64 (a ! 0) * uint64 (a ! 0),
     \<comment> \<open>tmp[1]\<close> push_bit 1 (uint64 (a ! 0) * uint64 (a ! 1)),
     \<comment> \<open>tmp[2]\<close> push_bit 1 (uint64 (a ! 0) * uint64 (a ! 2) + uint64 (a ! 1) * uint64 (a ! 1)),
     \<comment> \<open>tmp[3]\<close> push_bit 1 (uint64 (a ! 0) * uint64 (a ! 3) + uint64 (a ! 1) * uint64 (a ! 2)),
     \<comment> \<open>tmp[4]\<close> push_bit 1 (uint64 (a ! 0) * uint64 (a ! 4) + push_bit 1 (uint64 (a ! 1) * uint64 (a ! 3))) + uint64 (a ! 2) * uint64 (a ! 2),
     \<comment> \<open>tmp[5]\<close> push_bit 1 (uint64 (a ! 0) * uint64 (a ! 5) + uint64 (a ! 1) * uint64 (a ! 4) + uint64 (a ! 2) * uint64 (a ! 3)),
     \<comment> \<open>tmp[6]\<close> push_bit 1 (uint64 (a ! 0) * uint64 (a ! 6) + push_bit 1 (uint64 (a ! 1) * uint64 (a ! 5)) + uint64 (a ! 2) * uint64 (a ! 4) + uint64 (a ! 3) * uint64 (a ! 3)),
     \<comment> \<open>tmp[7]\<close> push_bit 1 (uint64 (a ! 0) * uint64 (a ! 7) + uint64 (a ! 1) * uint64 (a ! 6) + uint64 (a ! 2) * uint64 (a ! 5) + uint64 (a ! 3) * uint64 (a ! 4)),
     \<comment> \<open>tmp[8]\<close> push_bit 1 (uint64 (a ! 0) * uint64 (a ! 8) + push_bit 1 (uint64 (a ! 1) * uint64 (a ! 7)) + uint64 (a ! 2) * uint64 (a ! 6) + push_bit 1 (uint64 (a ! 3) * uint64 (a ! 5))) + uint64 (a ! 4) * uint64 (a ! 4),
     \<comment> \<open>tmp[9]\<close> push_bit 1 (uint64 (a ! 1) * uint64 (a ! 8) + uint64 (a ! 2) * uint64 (a ! 7) + uint64 (a ! 3) * uint64 (a ! 6) + uint64 (a ! 4) * uint64 (a ! 5)),
     \<comment> \<open>tmp[10]\<close> push_bit 1 (uint64 (a ! 2) * uint64 (a ! 8) + push_bit 1 (uint64 (a ! 3) * uint64 (a ! 7)) + uint64 (a ! 4) * uint64 (a ! 6) + uint64 (a ! 5) * uint64 (a ! 5)),
     \<comment> \<open>tmp[11]\<close> push_bit 1 (uint64 (a ! 3) * uint64 (a ! 8) + uint64 (a ! 4) * uint64 (a ! 7) + uint64 (a ! 5) * uint64 (a ! 6)),
     \<comment> \<open>tmp[12]\<close> push_bit 1 (uint64 (a ! 4) * uint64 (a ! 8) + push_bit 1 (uint64 (a ! 5) * uint64 (a ! 7))) + uint64 (a ! 6) * uint64 (a ! 6),
     \<comment> \<open>tmp[13]\<close> push_bit 1 (uint64 (a ! 5) * uint64 (a ! 8) + uint64 (a ! 6) * uint64 (a ! 7)),
     \<comment> \<open>tmp[14]\<close> push_bit 1 (uint64 (a ! 6) * uint64 (a ! 8) + uint64 (a ! 7) * uint64 (a ! 7)),
     \<comment> \<open>tmp[15]\<close> push_bit 1 (uint64 (a ! 7) * uint64 (a ! 8)),
     \<comment> \<open>tmp[16]\<close> uint64 (a ! 8) * uint64 (a ! 8)]"

definition sm2P256FromLargeElement :: "sm2P256LargeFieldElement \<Rightarrow> 64 word list" where
  "sm2P256FromLargeElement b =
     (let
       a0 = b ! 0;
       a0 = a0 + (push_bit 29 (b ! 1) AND bottom57BitsMask);
       carry = drop_bit 57 a0;
       a0 = a0 AND bottom57BitsMask;
       a1 = carry;
       a1 = a1 + drop_bit 28 (b ! 1);
       a1 = a1 + b ! 2;
       a1 = a1 + (push_bit 29 (b ! 3) AND bottom57BitsMask);
       carry = drop_bit 57 a1;
       a1 = a1 AND bottom57BitsMask;
       a2 = carry;
       a2 = a2 + drop_bit 28 (b ! 3);
       a2 = a2 + b ! 4;
       a2 = a2 + (push_bit 29 (b ! 5) AND bottom57BitsMask);
       carry = drop_bit 57 a2;
       a2 = a2 AND bottom57BitsMask;
       a3 = carry;
       a3 = a3 + drop_bit 28 (b ! 5);
       a3 = a3 + b ! 6;
       a3 = a3 + (push_bit 29 (b ! 7) AND bottom57BitsMask);
       carry = drop_bit 57 a3;
       a3 = a3 AND bottom57BitsMask;
       a4 = carry;
       a4 = a4 + drop_bit 28 (b ! 7);
       a4 = a4 + b ! 8;
       a4 = a4 + (push_bit 29 (b ! 9) AND bottom57BitsMask);
       carry = drop_bit 57 a4;
       a4 = a4 AND bottom57BitsMask;
       a5 = carry;
       a5 = a5 + drop_bit 28 (b ! 9);
       a5 = a5 + b ! 10;
       a5 = a5 + (push_bit 29 (b ! 11) AND bottom57BitsMask);
       carry = drop_bit 57 a5;
       a5 = a5 AND bottom57BitsMask;
       a6 = carry;
       a6 = a6 + drop_bit 28 (b ! 11);
       a6 = a6 + b ! 12;
       a6 = a6 + (push_bit 29 (b ! 13) AND bottom57BitsMask);
       carry = drop_bit 57 a6;
       a6 = a6 AND bottom57BitsMask;
       a7 = carry;
       a7 = a7 + drop_bit 28 (b ! 13);
       a7 = a7 + b ! 14;
       a7 = a7 + (push_bit 29 (b ! 15) AND bottom57BitsMask);
       carry = drop_bit 57 a7;
       a7 = a7 AND bottom57BitsMask;
       a8 = carry;
       a8 = a8 + drop_bit 28 (b ! 15);
       a8 = a8 + b ! 16;
       a9 = 0
      in [a0, a1, a2, a3, a4, a5, a6, a7, a8, a9])"

definition sm2P256DivideByR :: "64 word list \<Rightarrow> sm2P256FieldElement \<times> 32 word" where
  "sm2P256DivideByR tmp =
     (let
       a0 = uint32 (drop_bit 29 (tmp ! 4));
       a0 = a0 + (uint32 (push_bit 28 (tmp ! 5)) AND bottom29BitsMask);
       carry = drop_bit 29 a0;
       a0 = a0 AND bottom29BitsMask;
       a1 = uint32 (drop_bit 1 (tmp ! 5)) AND bottom28BitsMask;
       a1 = a1 + carry;
       carry = drop_bit 28 a1;
       a1 = a1 AND bottom28BitsMask;
       a2 = uint32 (drop_bit 29 (tmp ! 5));
       a2 = a2 + carry;
       a2 = a2 + (uint32 (push_bit 28 (tmp ! 6)) AND bottom29BitsMask);
       carry = drop_bit 29 a2;
       a2 = a2 AND bottom29BitsMask;
       a3 = uint32 (drop_bit 1 (tmp ! 6)) AND bottom28BitsMask;
       a3 = a3 + carry;
       carry = drop_bit 28 a3;
       a3 = a3 AND bottom28BitsMask;
       a4 = uint32 (drop_bit 29 (tmp ! 6));
       a4 = a4 + carry;
       a4 = a4 + (uint32 (push_bit 28 (tmp ! 7)) AND bottom29BitsMask);
       carry = drop_bit 29 a4;
       a4 = a4 AND bottom29BitsMask;
       a5 = uint32 (drop_bit 1 (tmp ! 7)) AND bottom28BitsMask;
       a5 = a5 + carry;
       carry = drop_bit 28 a5;
       a5 = a5 AND bottom28BitsMask;
       a6 = uint32 (drop_bit 29 (tmp ! 7));
       a6 = a6 + carry;
       a6 = a6 + (uint32 (push_bit 28 (tmp ! 8)) AND bottom29BitsMask);
       carry = drop_bit 29 a6;
       a6 = a6 AND bottom29BitsMask;
       a7 = uint32 (drop_bit 1 (tmp ! 8)) AND bottom28BitsMask;
       a7 = a7 + carry;
       carry = drop_bit 28 a7;
       a7 = a7 AND bottom28BitsMask;
       a8 = uint32 (drop_bit 29 (tmp ! 8));
       a8 = a8 + carry;
       a8 = a8 + (uint32 (push_bit 28 (tmp ! 9)) AND bottom29BitsMask);
       carry = drop_bit 29 a8;
       a8 = a8 AND bottom29BitsMask
      in ([a0, a1, a2, a3, a4, a5, a6, a7, a8], carry))"

text \<open>
  The block guarded by \<^verbatim>\<open>if x64 > 0\<close> in sm2P256ReduceDegree; the source repeats it
  five times with the indices \<open>j, j1, \<dots>, j5\<close> moved up by one each time.
\<close>

definition sm2P256ReduceDegree_block :: "nat \<Rightarrow> 64 word \<Rightarrow> 64 word list \<Rightarrow> 64 word list" where
  "sm2P256ReduceDegree_block j x64 tmp64 =
     (let j1 = j + 1; j2 = j + 2; j3 = j + 3; j4 = j + 4; j5 = j + 5 in
      if x64 > 0 then
        (let tmp64 = tmp64[j1 := tmp64 ! j1 + (push_bit 7 x64 AND bottom57BitsMask)];
             tmp64 = tmp64[j2 := tmp64 ! j2 + drop_bit 50 x64];

             tmp64 = tmp64[j1 := tmp64 ! j1 + twoPower57];
             tmp64 = tmp64[j2 := tmp64 ! j2 + bottom57BitsMask];

             tmp64 = tmp64[j1 := tmp64 ! j1 - (push_bit 39 x64 AND bottom57BitsMask)];
             tmp64 = tmp64[j2 := tmp64 ! j2 - drop_bit 18 x64];

             tmp64 = tmp64[j3 := tmp64 ! j3 + bottom57BitsMask];
             tmp64 = tmp64[j4 := tmp64 ! j4 + bottom57BitsMask];

             tmp64 = tmp64[j3 := tmp64 ! j3 - (push_bit 53 x64 AND bottom57BitsMask)];
             tmp64 = tmp64[j4 := tmp64 ! j4 - (drop_bit 4 x64 AND bottom57BitsMask)];

             tmp64 = tmp64[j5 := tmp64 ! j5 - 1];
             tmp64 = tmp64[j4 := tmp64 ! j4 + (push_bit 28 x64 AND bottom57BitsMask)];
             tmp64 = tmp64[j5 := tmp64 ! j5 + (drop_bit 29 x64 AND bottom29BitsMask)]
         in tmp64)
      else tmp64)"

text \<open>One of the first four rounds: the carry of limb \<open>j\<close> goes up, its low 57 bits are cancelled.\<close>

definition sm2P256ReduceDegree_round :: "nat \<Rightarrow> 64 word list \<Rightarrow> 64 word list" where
  "sm2P256ReduceDegree_round j tmp64 =
     (let tmp64 = tmp64[j + 1 := tmp64 ! (j + 1) + drop_bit 57 (tmp64 ! j)];
          x64 = tmp64 ! j AND bottom57BitsMask
      in sm2P256ReduceDegree_block j x64 tmp64)"

text \<open>The fifth round cancels only the low 29 bits of limb 4 and keeps the rest in place.\<close>

definition sm2P256ReduceDegree_last :: "nat \<Rightarrow> 64 word list \<Rightarrow> 64 word list" where
  "sm2P256ReduceDegree_last j tmp64 =
     (let x64 = tmp64 ! j AND bottom29BitsMask;
          tmp64 = tmp64[j := push_bit 29 (drop_bit 29 (tmp64 ! j))]
      in sm2P256ReduceDegree_block j x64 tmp64)"

text \<open>The buffer \<^verbatim>\<open>tmp64\<close> of sm2P256ReduceDegree when it reaches sm2P256DivideByR.\<close>

definition sm2P256ReduceDegree_tmp64 :: "sm2P256LargeFieldElement \<Rightarrow> 64 word list" where
  "sm2P256ReduceDegree_tmp64 b =
     (let tmp64 = sm2P256FromLargeElement b;
          tmp64 = sm2P256ReduceDegree_round 0 tmp64;
          tmp64 = sm2P256ReduceDegree_round 1 tmp64;
          tmp64 = sm2P256ReduceDegree_round 2 tmp64;
          tmp64 = sm2P256ReduceDegree_round 3 tmp64;
          tmp64 = sm2P256ReduceDegree_last 4 tmp64
      in if tmp64 ! 9 + 1 = 0
         then (let tmp64 = tmp64[9 := 0];
                   tmp64 = tmp64[8 := tmp64 ! 8 - twoPower57]
               in tmp64)
         else tmp64)"

definition sm2P256ReduceDegree ::
  "sm2P256LargeFieldElement \<Rightarrow> sm2P256FieldElement option" where
  "sm2P256ReduceDegree b =
     (let tmp64 = sm2P256ReduceDegree_tmp64 b;
          (a, carry) = sm2P256DivideByR tmp64
      in sm2P256ReduceCarry a carry)"

definition sm2P256Mul ::
  "sm2P256FieldElement \<Rightarrow> sm2P256FieldElement \<Rightarrow> sm2P256FieldElement option" where
  "sm2P256Mul a b = sm2P256ReduceDegree (sm2P256Mul_tmp a b)"

definition sm2P256Square :: "sm2P256FieldElement \<Rightarrow> sm2P256FieldElement option" where
  "sm2P256Square a = sm2P256ReduceDegree (sm2P256Square_tmp a)"

subsection \<open>The two-way routines\<close>

text \<open>
  Modelled from the spec: the assembly kernels \<^verbatim>\<open>_sm2P256Mul2Way1\<close> and
  \<^verbatim>\<open>_sm2P256Mul2Way2\<close> are not among the sources.  The spec (4.2) says that the
  two-way variants ``compute two independent products into two WFEs'' with the semantic
  contract of the one-way routine.  The Go code between the two calls fills limb 8 of both
  products, so the first kernel is taken to fill limbs 0 to 7 and the second limbs 9 to 16
  of the two schoolbook products.
\<close>

definition asm_sm2P256Mul2Way1 ::
  "sm2P256LargeFieldElement \<Rightarrow> sm2P256FieldElement \<Rightarrow> sm2P256FieldElement \<Rightarrow>
   sm2P256LargeFieldElement \<Rightarrow> sm2P256FieldElement \<Rightarrow> sm2P256FieldElement \<Rightarrow>
   sm2P256LargeFieldElement \<times> sm2P256LargeFieldElement" where
  "asm_sm2P256Mul2Way1 tmp1 a1 b1 tmp2 a2 b2 =
     (take 8 (sm2P256Mul_tmp a1 b1) @ drop 8 tmp1,
      take 8 (sm2P256Mul_tmp a2 b2) @ drop 8 tmp2)"

definition asm_sm2P256Mul2Way2 ::
  "sm2P256LargeFieldElement \<Rightarrow> sm2P256FieldElement \<Rightarrow> sm2P256FieldElement \<Rightarrow>
   sm2P256LargeFieldElement \<Rightarrow> sm2P256FieldElement \<Rightarrow> sm2P256FieldElement \<Rightarrow>
   sm2P256LargeFieldElement \<times> sm2P256LargeFieldElement" where
  "asm_sm2P256Mul2Way2 tmp1 a1 b1 tmp2 a2 b2 =
     (take 9 tmp1 @ drop 9 (sm2P256Mul_tmp a1 b1),
      take 9 tmp2 @ drop 9 (sm2P256Mul_tmp a2 b2))"

text \<open>
  Modelled from the spec: the assembly kernel \<^verbatim>\<open>_sm2P256Square2Way\<close> is not among the
  sources; by the spec (4.2) it forms the two 17-limb squares.
\<close>

definition asm_sm2P256Square2Way ::
  "sm2P256FieldElement \<Rightarrow> sm2P256FieldElement \<Rightarrow>
   sm2P256LargeFieldElement \<times> sm2P256LargeFieldElement" where
  "asm_sm2P256Square2Way a a2 = (sm2P256Square_tmp a, sm2P256Square_tmp a2)"

text \<open>
  Modelled from the spec: the assembly kernel \<^verbatim>\<open>_sm2ReduceDegree_2way\<close> is not among
  the sources.  By the spec (4.2, 4.3) it is the batched form of steps 1 to 5 of
  ReduceDegree up to the call of ReduceCarry: it writes both field elements and returns
  the two carries, which the Go caller unpacks from the low and the high half of one
  64-bit word.
\<close>

definition asm_sm2ReduceDegree_2way ::
  "sm2P256LargeFieldElement \<Rightarrow> sm2P256LargeFieldElement \<Rightarrow>
   sm2P256FieldElement \<times> sm2P256FieldElement \<times> 64 word" where
  "asm_sm2ReduceDegree_2way b b2 =
     (let (a, carry) = sm2P256DivideByR (sm2P256ReduceDegree_tmp64 b);
          (a2, carry2) = sm2P256DivideByR (sm2P256ReduceDegree_tmp64 b2)
      in (a, a2, uint64 carry OR push_bit 32 (uint64 carry2)))"

definition sm2P256ReduceDegree2Way ::
  "sm2P256LargeFieldElement \<Rightarrow> sm2P256LargeFieldElement \<Rightarrow>
   (sm2P256FieldElement \<times> sm2P256FieldElement) option" where
  "sm2P256ReduceDegree2Way b b2 =
     (let (a, a2, carry_temp) = asm_sm2ReduceDegree_2way b b2;
          carry = uint32 carry_temp;
          carry2 = uint32 (drop_bit 32 carry_temp)
      in do {
        a \<leftarrow> sm2P256ReduceCarry a carry;
        a2 \<leftarrow> sm2P256ReduceCarry a2 carry2;
        Some (a, a2)
      })"

definition sm2P256Mul2Way ::
  "sm2P256FieldElement \<Rightarrow> sm2P256FieldElement \<Rightarrow> sm2P256FieldElement \<Rightarrow>
   sm2P256FieldElement \<Rightarrow> (sm2P256FieldElement \<times> sm2P256FieldElement) option" where
  "sm2P256Mul2Way a1 b1 a2 b2 =
     (let tmp1 = replicate 17 0;
          tmp2 = replicate 17 0;
          (tmp1, tmp2) = asm_sm2P256Mul2Way1 tmp1 a1 b1 tmp2 a2 b2;
          tmp1 = tmp1[8 := push_bit 1 (uint64 (a1 ! 1) * uint64 (b1 ! 7) + uint64 (a1 ! 3) * uint64 (b1 ! 5) + uint64 (a1 ! 5) * uint64 (b1 ! 3) + uint64 (a1 ! 7) * uint64 (b1 ! 1)) + uint64 (a1 ! 0) * uint64 (b1 ! 8) + uint64 (a1 ! 2) * uint64 (b1 ! 6) + uint64 (a1 ! 4) * uint64 (b1 ! 4) + uint64 (a1 ! 6) * uint64 (b1 ! 2) + uint64 (a1 ! 8) * uint64 (b1 ! 0)];
          tmp2 = tmp2[8 := push_bit 1 (uint64 (a2 ! 1) * uint64 (b2 ! 7) + uint64 (a2 ! 3) * uint64 (b2 ! 5) + uint64 (a2 ! 5) * uint64 (b2 ! 3) + uint64 (a2 ! 7) * uint64 (b2 ! 1)) + uint64 (a2 ! 0) * uint64 (b2 ! 8) + uint64 (a2 ! 2) * uint64 (b2 ! 6) + uint64 (a2 ! 4) * uint64 (b2 ! 4) + uint64 (a2 ! 6) * uint64 (b2 ! 2) + uint64 (a2 ! 8) * uint64 (b2 ! 0)];
          (tmp1, tmp2) = asm_sm2P256Mul2Way2 tmp1 a1 b1 tmp2 a2 b2
      in sm2P256ReduceDegree2Way tmp1 tmp2)"

definition sm2P256Square2Way ::
  "sm2P256FieldElement \<Rightarrow> sm2P256FieldElement \<Rightarrow>
   (sm2P256FieldElement \<times> sm2P256FieldElement) option" where
  "sm2P256Square2Way a a2 =
     (let (tmp, tmp2) = asm_sm2P256Square2Way a a2
      in sm2P256ReduceDegree2Way tmp tmp2)"

section \<open>The curve\<close>

text \<open>The coefficients \<^verbatim>\<open>sm2P256.a\<close> and \<^verbatim>\<open>sm2P256.b\<close> that initP256Sm2 computes.\<close>

definition sm2P256_a :: sm2P256FieldElement where
  "sm2P256_a = sm2P256FromBig (replicate 9 0) sm2P256_A"

definition sm2P256_b :: sm2P256FieldElement where
  "sm2P256_b = sm2P256FromBig (replicate 9 0) sm2P256_B"

definition IsOnCurve :: "int \<Rightarrow> int \<Rightarrow> bool option" where
  "IsOnCurve X Y =
     (let x = sm2P256FromBig (replicate 9 0) X;
          y = sm2P256FromBig (replicate 9 0) Y
      in do {
        (x3, y2) \<leftarrow> sm2P256Square2Way x y;
        (x3, a) \<leftarrow> sm2P256Mul2Way x3 x sm2P256_a x;
        x3 \<leftarrow> sm2P256Add x3 a;
        x3 \<leftarrow> sm2P256Add x3 sm2P256_b;
        Some (sm2P256ToBig x3 = sm2P256ToBig y2)
      })"

section \<open>Scalars and table selection\<close>

text \<open>
  \<^verbatim>\<open>new(big.Int).SetBytes(a)\<close> reads a big-endian byte string; \<^verbatim>\<open>n.Bytes()\<close> is the
  big-endian byte string of a natural number without leading zero bytes.
\<close>

definition SetBytes :: "8 word list \<Rightarrow> int" where
  "SetBytes a = foldl (\<lambda>n v. n * 256 + uint v) 0 a"

function Bytes :: "nat \<Rightarrow> 8 word list" where
  "Bytes n = (if n = 0 then [] else Bytes (n div 256) @ [of_nat (n mod 256)])"
  by pat_completeness auto
termination
  by (relation "measure id") auto

text \<open>
  The loop \<^verbatim>\<open>for i, v := range scalarBytes\<close> of sm2P256GetScalar writes
  \<^verbatim>\<open>b[len(scalarBytes)-(1+i)]\<close>; the index is a signed Go int, and a write outside the
  array \<open>b\<close> panics.
\<close>

function sm2P256GetScalar_loop ::
  "8 word list \<Rightarrow> 8 word list \<Rightarrow> nat \<Rightarrow> 8 word list option" where
  "sm2P256GetScalar_loop b scalarBytes i =
     (if i < length scalarBytes then
        (let v = scalarBytes ! i;
             k = int (length scalarBytes) - (1 + int i)
         in if 0 \<le> k \<and> k < int (length b)
            then sm2P256GetScalar_loop (b[nat k := v]) scalarBytes (i + 1)
            else None)
      else Some b)"
  by pat_completeness auto
termination
  by (relation "measure (\<lambda>(b, scalarBytes, i). length scalarBytes - i)") auto

definition sm2P256GetScalar :: "8 word list \<Rightarrow> 8 word list \<Rightarrow> 8 word list option" where
  "sm2P256GetScalar b a =
     (let n = SetBytes a;
          scalarBytes = (if n \<ge> sm2P256_N then Bytes (nat (n mod sm2P256_N)) else a)
      in sm2P256GetScalar_loop b scalarBytes 0)"

text \<open>The indices of \<open>b\<close> that sm2P256GetScalar writes, in the order of the writes.\<close>

definition sm2P256GetScalar_writes :: "8 word list \<Rightarrow> int list" where
  "sm2P256GetScalar_writes a =
     (let n = SetBytes a;
          scalarBytes = (if n \<ge> sm2P256_N then Bytes (nat (n mod sm2P256_N)) else a)
      in map (\<lambda>i. int (length scalarBytes) - (1 + int i)) [0..<length scalarBytes])"

text \<open>
  sm2P256SelectAffinePoint, with the positions of \<open>table\<close> it reads recorded in the order
  of the reads; a read outside the slice panics.
\<close>

fun sm2P256SelectAffinePoint_loop ::
  "32 word list \<Rightarrow> 32 word \<Rightarrow> 32 word \<Rightarrow> nat list \<Rightarrow>
   sm2P256FieldElement \<times> sm2P256FieldElement \<times> nat list \<Rightarrow>
   (sm2P256FieldElement \<times> sm2P256FieldElement \<times> nat list) option" where
  "sm2P256SelectAffinePoint_loop table xbase ybase [] s = Some s"
| "sm2P256SelectAffinePoint_loop table xbase ybase (j # js) (xOut, yOut, reads) =
     (let ix = unat (xbase + of_nat j);
          iy = unat (ybase + of_nat j)
      in if ix < length table \<and> iy < length table
         then sm2P256SelectAffinePoint_loop table xbase ybase js
                (xOut[j := table ! ix], yOut[j := table ! iy], reads @ [ix, iy])
         else None)"

definition sm2P256SelectAffinePoint ::
  "sm2P256FieldElement \<Rightarrow> sm2P256FieldElement \<Rightarrow> 32 word list \<Rightarrow> 32 word \<Rightarrow>
   (sm2P256FieldElement \<times> sm2P256FieldElement \<times> nat list) option" where
  "sm2P256SelectAffinePoint xOut yOut table index =
     (let xbase = index * 18;
          ybase = xbase + 9
      in sm2P256SelectAffinePoint_loop table xbase ybase [0..<length xOut] (xOut, yOut, []))"

text \<open>
  sm2P256SelectJacobianPoint on the table \<^verbatim>\<open>[16][3]sm2P256FieldElement\<close>; a read is
  recorded as (entry, coordinate, limb).
\<close>

fun sm2P256SelectJacobianPoint_loop ::
  "sm2P256FieldElement list list \<Rightarrow> 32 word \<Rightarrow> nat list \<Rightarrow>
   sm2P256FieldElement \<times> sm2P256FieldElement \<times> sm2P256FieldElement \<times> (nat \<times> nat \<times> nat) list \<Rightarrow>
   (sm2P256FieldElement \<times> sm2P256FieldElement \<times> sm2P256FieldElement \<times> (nat \<times> nat \<times> nat) list) option"
  where
  "sm2P256SelectJacobianPoint_loop table index [] s = Some s"
| "sm2P256SelectJacobianPoint_loop table index (j # js) (xOut, yOut, zOut, reads) =
     (let i = unat index
      in if i < length table
         then sm2P256SelectJacobianPoint_loop table index js
                (xOut[j := table ! i ! 0 ! j], yOut[j := table ! i ! 1 ! j],
                 zOut[j := table ! i ! 2 ! j], reads @ [(i, 0, j), (i, 1, j), (i, 2, j)])
         else None)"

definition sm2P256SelectJacobianPoint ::
  "sm2P256FieldElement \<Rightarrow> sm2P256FieldElement \<Rightarrow> sm2P256FieldElement \<Rightarrow>
   sm2P256FieldElement list list \<Rightarrow> 32 word \<Rightarrow>
   (sm2P256FieldElement \<times> sm2P256FieldElement \<times> sm2P256FieldElement \<times> (nat \<times> nat \<times> nat) list) option"
  where
  "sm2P256SelectJacobianPoint xOut yOut zOut table index =
     sm2P256SelectJacobianPoint_loop table index [0..<length xOut] (xOut, yOut, zOut, [])"

section \<open>Point arithmetic\<close>

definition sm2P256Dup :: "sm2P256FieldElement \<Rightarrow> sm2P256FieldElement" where
  "sm2P256Dup a = a"

definition sm2P256PointAdd ::
  "sm2P256FieldElement \<Rightarrow> sm2P256FieldElement \<Rightarrow> sm2P256FieldElement \<Rightarrow>
   sm2P256FieldElement \<Rightarrow> sm2P256FieldElement \<Rightarrow> sm2P256FieldElement \<Rightarrow>
   (sm2P256FieldElement \<times> sm2P256FieldElement \<times> sm2P256FieldElement) option" where
  "sm2P256PointAdd x1 y1 z1 x2 y2 z2 =
     (let is_z1_zero = list_all (\<lambda>i. z1 ! i = 0) [0..<9];
          is_z1_p = list_all (\<lambda>i. z1 ! i = pv ! i) [0..<9]
      in if is_z1_zero \<or> is_z1_p then
           Some (sm2P256Dup x2, sm2P256Dup y2, sm2P256Dup z2)
         else
          (let is_z2_zero = list_all (\<lambda>i. z2 ! i = 0) [0..<9];
               is_z2_p = list_all (\<lambda>i. z2 ! i = pv ! i) [0..<9]
           in if is_z2_zero \<or> is_z2_p then
                Some (sm2P256Dup x1, sm2P256Dup y1, sm2P256Dup z1)
              else do {
                (z12, z22) \<leftarrow> sm2P256Square2Way z1 z2;
                (z13, z23) \<leftarrow> sm2P256Mul2Way z12 z1 z22 z2;
                (tx1, tx2) \<leftarrow> sm2P256Mul2Way x1 z22 x2 z12;
                (ty1, ty2) \<leftarrow> sm2P256Mul2Way y1 z23 y2 z13;
                dx \<leftarrow> sm2P256Sub tx2 tx1;
                dy \<leftarrow> sm2P256Sub ty2 ty1;
                (dy2, dx2) \<leftarrow> sm2P256Square2Way dy dx;
                (dx3, tm) \<leftarrow> sm2P256Mul2Way dx2 dx tx1 dx2;
                x3 \<leftarrow> sm2P256Sub dy2 dx3;
                x3 \<leftarrow> sm2P256Sub x3 tm;
                x3 \<leftarrow> sm2P256Sub x3 tm;
                tm \<leftarrow> sm2P256Sub tm x3;
                (y3, z3) \<leftarrow> sm2P256Mul2Way dy tm z1 z2;
                (tm, z3) \<leftarrow> sm2P256Mul2Way dx3 ty1 z3 dx;
                y3 \<leftarrow> sm2P256Sub y3 tm;
                Some (x3, y3, z3)
              }))"

definition sm2P256PointDouble ::
  "sm2P256FieldElement \<Rightarrow> sm2P256FieldElement \<Rightarrow> sm2P256FieldElement \<Rightarrow>
   (sm2P256FieldElement \<times> sm2P256FieldElement \<times> sm2P256FieldElement) option" where
  "sm2P256PointDouble x y z = do {
     (x2, z4_mul_a) \<leftarrow> sm2P256Square2Way x z;
     (y2, z4_mul_a) \<leftarrow> sm2P256Square2Way y z4_mul_a;
     (z4_mul_a, s) \<leftarrow> sm2P256Mul2Way z4_mul_a sm2P256_a x y2;
     lambda \<leftarrow> sm2P256Add x2 x2;
     lambda \<leftarrow> sm2P256Add lambda x2;
     lambda \<leftarrow> sm2P256Add lambda z4_mul_a;
     y4_mul_8 \<leftarrow> sm2P256Add y2 y2;
     (lambda2, y4_mul_8) \<leftarrow> sm2P256Square2Way lambda y4_mul_8;
     y4_mul_8 \<leftarrow> sm2P256Add y4_mul_8 y4_mul_8;
     s \<leftarrow> sm2P256Add s s;
     s \<leftarrow> sm2P256Add s s;
     x3 \<leftarrow> sm2P256Sub lambda2 s;
     x3 \<leftarrow> sm2P256Sub x3 s;
     t \<leftarrow> sm2P256Sub s x3;
     (t, z3) \<leftarrow> sm2P256Mul2Way t lambda y z;
     y3 \<leftarrow> sm2P256Sub t y4_mul_8;
     z3 \<leftarrow> sm2P256Add z3 z3;
     Some (x3, y3, z3)
   }"

section \<open>Notions used in the statements\<close>

text \<open>The row of sm2P256Carry that belongs to \<open>carry\<close>.\<close>

definition sm2P256Carry_row :: "32 word \<Rightarrow> 32 word list" where
  "sm2P256Carry_row carry = take 9 (drop (9 * unat carry) sm2P256Carry)"

text \<open>The test of sm2P256PointAdd for the point at infinity: all limbs zero, or the limbs of \<open>pv\<close>.\<close>

definition is_zero_or_pv :: "sm2P256FieldElement \<Rightarrow> bool" where
  "is_zero_or_pv z \<longleftrightarrow> z = replicate 9 0 \<or> z = pv"

section \<open>Canonical conversion\<close>

declare sm2P256FromBigPlain_loop.simps [simp del] sm2P256ToBigPlain_loop.simps [simp del]

lemma length9_D:
  "length (X :: 'a list) = 9 \<Longrightarrow> \<exists>x0 x1 x2 x3 x4 x5 x6 x7 x8. X = [x0, x1, x2, x3, x4, x5, x6, x7, x8]"
  by (auto simp: length_Suc_conv numeral_eq_Suc)

lemma sm2P256ToBigPlain_list:
  "sm2P256ToBigPlain [x0, x1, x2, x3, x4, x5, x6, x7, x8] =
     uint x0 + uint x1 * 2 ^ 29 + uint x2 * 2 ^ 57 + uint x3 * 2 ^ 86 + uint x4 * 2 ^ 114
     + uint x5 * 2 ^ 143 + uint x6 * 2 ^ 171 + uint x7 * 2 ^ 200 + uint x8 * 2 ^ 228"
  by (simp add: sm2P256ToBigPlain_def sm2P256ToBigPlain_loop.simps Let_def)

lemma sm2P256FromBigPlain_list:
  "sm2P256FromBigPlain [x0, x1, x2, x3, x4, x5, x6, x7, x8] x =
     [getBottom29Bits x,
      getBottom28Bits (x div 2 ^ 29),
      getBottom29Bits (x div 2 ^ 57),
      getBottom28Bits (x div 2 ^ 86),
      getBottom29Bits (x div 2 ^ 114),
      getBottom28Bits (x div 2 ^ 143),
      getBottom29Bits (x div 2 ^ 171),
      getBottom28Bits (x div 2 ^ 200),
      getBottom29Bits (x div 2 ^ 228)]"
  by (simp add: sm2P256FromBigPlain_def sm2P256FromBigPlain_loop.simps Let_def zdiv_zmult2_eq[symmetric])

lemma uint_getBottom29Bits: "0 \<le> x \<Longrightarrow> uint (getBottom29Bits x) = x mod 2 ^ 29"
proof -
  assume "0 \<le> x"
  have m: "(bottom29BitsMask :: 32 word) = mask 29"
    by (simp add: bottom29BitsMask_def mask_eq_exp_minus_1)
  have "uint ((word_of_int x :: 32 word) AND mask 29) = take_bit 29 x"
    by (simp add: and_mask_wi uint_word_of_int_eq)
  then show ?thesis using \<open>0 \<le> x\<close>
    by (simp add: getBottom29Bits_def getBottomNBits_def getBottomNBitsMask_def m take_bit_eq_mod)
qed

lemma uint_getBottom28Bits: "0 \<le> x \<Longrightarrow> uint (getBottom28Bits x) = x mod 2 ^ 28"
proof -
  assume "0 \<le> x"
  have m: "(bottom28BitsMask :: 32 word) = mask 28"
    by (simp add: bottom28BitsMask_def mask_eq_exp_minus_1)
  have "uint ((word_of_int x :: 32 word) AND mask 28) = take_bit 28 x"
    by (simp add: and_mask_wi uint_word_of_int_eq)
  then show ?thesis using \<open>0 \<le> x\<close>
    by (simp add: getBottom28Bits_def getBottomNBits_def getBottomNBitsMask_def m take_bit_eq_mod)
qed

lemma split_limb:
  fixes x :: int
  shows "x mod 2 ^ a + x div 2 ^ a mod 2 ^ b * 2 ^ a = x mod 2 ^ (a + b)"
  by (simp add: power_add zmod_zmult2_eq)

lemma limbs_recompose:
  fixes v :: int
  assumes "0 \<le> v" "v < 2 ^ 257"
  shows "v mod 2 ^ 29 + (v div 2 ^ 29) mod 2 ^ 28 * 2 ^ 29 + (v div 2 ^ 57) mod 2 ^ 29 * 2 ^ 57
    + (v div 2 ^ 86) mod 2 ^ 28 * 2 ^ 86 + (v div 2 ^ 114) mod 2 ^ 29 * 2 ^ 114
    + (v div 2 ^ 143) mod 2 ^ 28 * 2 ^ 143 + (v div 2 ^ 171) mod 2 ^ 29 * 2 ^ 171
    + (v div 2 ^ 200) mod 2 ^ 28 * 2 ^ 200 + (v div 2 ^ 228) mod 2 ^ 29 * 2 ^ 228 = v"
proof -
  have s1: "v mod 2 ^ 29 + (v div 2 ^ 29) mod 2 ^ 28 * 2 ^ 29 = v mod 2 ^ 57"
    using split_limb [of v 29 28] by simp
  have s2: "v mod 2 ^ 57 + (v div 2 ^ 57) mod 2 ^ 29 * 2 ^ 57 = v mod 2 ^ 86"
    using split_limb [of v 57 29] by simp
  have s3: "v mod 2 ^ 86 + (v div 2 ^ 86) mod 2 ^ 28 * 2 ^ 86 = v mod 2 ^ 114"
    using split_limb [of v 86 28] by simp
  have s4: "v mod 2 ^ 114 + (v div 2 ^ 114) mod 2 ^ 29 * 2 ^ 114 = v mod 2 ^ 143"
    using split_limb [of v 114 29] by simp
  have s5: "v mod 2 ^ 143 + (v div 2 ^ 143) mod 2 ^ 28 * 2 ^ 143 = v mod 2 ^ 171"
    using split_limb [of v 143 28] by simp
  have s6: "v mod 2 ^ 171 + (v div 2 ^ 171) mod 2 ^ 29 * 2 ^ 171 = v mod 2 ^ 200"
    using split_limb [of v 171 29] by simp
  have s7: "v mod 2 ^ 200 + (v div 2 ^ 200) mod 2 ^ 28 * 2 ^ 200 = v mod 2 ^ 228"
    using split_limb [of v 200 28] by simp
  have s8: "v mod 2 ^ 228 + (v div 2 ^ 228) mod 2 ^ 29 * 2 ^ 228 = v mod 2 ^ 257"
    using split_limb [of v 228 29] by simp
  have s9: "v mod 2 ^ 257 = v" using assms by simp
  show ?thesis
    by (simp only: s1 s2 s3 s4 s5 s6 s7 s8 s9)
qed

lemma R_RInverse: "(2 ^ 257 * sm2P256_RInverse) mod sm2P256_P = 1"
  by (simp add: sm2P256_RInverse_def sm2P256_P_def)

lemma ToBigPlain_FromBigPlain:
  assumes "0 \<le> v" "v < 2 ^ 257" "length X = 9"
  shows "sm2P256ToBigPlain (sm2P256FromBigPlain X v) = v"
proof -
  obtain x0 x1 x2 x3 x4 x5 x6 x7 x8 where X: "X = [x0, x1, x2, x3, x4, x5, x6, x7, x8]"
    using length9_D [OF assms(3)] by blast
  have p: "0 \<le> v div 2 ^ k" for k
    using assms(1) by (simp add: pos_imp_zdiv_nonneg_iff)
  have u: "uint (getBottom29Bits v) = v mod 2 ^ 29"
    "uint (getBottom28Bits (v div 2 ^ 29)) = (v div 2 ^ 29) mod 2 ^ 28"
    "uint (getBottom29Bits (v div 2 ^ 57)) = (v div 2 ^ 57) mod 2 ^ 29"
    "uint (getBottom28Bits (v div 2 ^ 86)) = (v div 2 ^ 86) mod 2 ^ 28"
    "uint (getBottom29Bits (v div 2 ^ 114)) = (v div 2 ^ 114) mod 2 ^ 29"
    "uint (getBottom28Bits (v div 2 ^ 143)) = (v div 2 ^ 143) mod 2 ^ 28"
    "uint (getBottom29Bits (v div 2 ^ 171)) = (v div 2 ^ 171) mod 2 ^ 29"
    "uint (getBottom28Bits (v div 2 ^ 200)) = (v div 2 ^ 200) mod 2 ^ 28"
    "uint (getBottom29Bits (v div 2 ^ 228)) = (v div 2 ^ 228) mod 2 ^ 29"
    by (rule uint_getBottom29Bits uint_getBottom28Bits, rule p assms(1))+
  show ?thesis
    unfolding X sm2P256FromBigPlain_list sm2P256ToBigPlain_list u
    by (rule limbs_recompose [OF assms(1,2)])
qed

text \<open>
  Claim C4.  For every integer \<open>x\<close> with \<open>0 \<le> x < p\<close>, converting \<open>x\<close> to the nine-limb
  Montgomery representation with sm2P256FromBig and back with sm2P256ToBig gives \<open>x\<close>
  again, whatever the nine limbs of the output buffer held before.
\<close>

theorem FromBig_ToBig_roundtrip:
  assumes "0 \<le> x" "x < sm2P256_P" "length X = 9"
  shows "sm2P256ToBig (sm2P256FromBig X x) = x"
proof -
  define R :: int where "R = 2 ^ 257"
  have P: "0 < sm2P256_P" "sm2P256_P < R" by (simp_all add: sm2P256_P_def R_def)
  let ?v = "(x * R) mod sm2P256_P"
  have "?v < sm2P256_P" using P(1) by (rule pos_mod_bound)
  then have "?v < R" using P(2) by (rule less_trans)
  then have v2: "?v < 2 ^ 257" by (simp only: R_def)
  have v1: "0 \<le> ?v" using P(1) by (rule pos_mod_sign)
  have RR: "(R * sm2P256_RInverse) mod sm2P256_P = 1"
    using R_RInverse by (simp only: R_def)
  have "sm2P256FromBig X x = sm2P256FromBigPlain X ?v"
    by (simp only: sm2P256FromBig_def Let_def R_def)
  then have "sm2P256ToBig (sm2P256FromBig X x) = (?v * sm2P256_RInverse) mod sm2P256_P"
    by (simp only: sm2P256ToBig_def Let_def ToBigPlain_FromBigPlain [OF v1 v2 assms(3)])
  also have "\<dots> = (x * (R * sm2P256_RInverse)) mod sm2P256_P"
    by (simp add: mod_mult_left_eq mult.assoc)
  also have "\<dots> = (x * ((R * sm2P256_RInverse) mod sm2P256_P)) mod sm2P256_P"
    by (simp only: mod_mult_right_eq)
  also have "\<dots> = x" using assms by (simp add: RR)
  finally show ?thesis .
qed


theorem FromBig_ToBig_roundtrip_witness:
  "(0::int) \<le> 5 \<and> 5 < sm2P256_P \<and> length (replicate 9 (0::32 word)) = 9
   \<and> sm2P256ToBig (sm2P256FromBig (replicate 9 0) 5) = 5"
proof -
  have h1: "(0::int) \<le> 5" by simp
  have h2: "5 < sm2P256_P" by (simp add: sm2P256_P_def)
  have h3: "length (replicate 9 (0::32 word)) = 9" by simp
  show ?thesis using h1 h2 h3 FromBig_ToBig_roundtrip [OF h1 h2 h3] by simp
qed

section \<open>Reduction of the carry\<close>

lemma carry_cases:
  fixes carry :: "32 word"
  assumes "unat carry \<le> 7"
  shows "carry \<in> {0, 1, 2, 3, 4, 5, 6, 7}"
proof -
  have "unat carry \<in> {0, 1, 2, 3, 4, 5, 6, 7}" using assms by auto
  then have "of_nat (unat carry) \<in> ((of_nat ` {0, 1, 2, 3, 4, 5, 6, 7}) :: 32 word set)"
    by (rule imageI)
  then show ?thesis by simp
qed

text \<open>
  Claim C7 (amended).  For every carry in \<open>[0, 7]\<close>, sm2P256ReduceCarry adds row \<open>carry\<close> of
  the eight-row table into limbs 0, 2, 3 and 7 and leaves the other limbs as they are; the
  other limbs of the row are zero, and the row denotes \<open>carry * (2^257 - 2 * p)\<close> in the
  nine-limb representation, that is \<open>carry * 2^257\<close> lowered by \<open>2 * carry * p\<close>.
\<close>

theorem sm2P256ReduceCarry_row:
  assumes "unat carry \<le> 7" "length a = 9"
  shows "sm2P256ReduceCarry a carry =
           Some [a ! 0 + sm2P256Carry_row carry ! 0, a ! 1, a ! 2 + sm2P256Carry_row carry ! 2,
                 a ! 3 + sm2P256Carry_row carry ! 3, a ! 4, a ! 5, a ! 6,
                 a ! 7 + sm2P256Carry_row carry ! 7, a ! 8]
         \<and> sm2P256Carry_row carry ! 1 = 0 \<and> sm2P256Carry_row carry ! 4 = 0
         \<and> sm2P256Carry_row carry ! 5 = 0 \<and> sm2P256Carry_row carry ! 6 = 0
         \<and> sm2P256Carry_row carry ! 8 = 0
         \<and> sm2P256ToBigPlain (sm2P256Carry_row carry) = uint carry * (2 ^ 257 - 2 * sm2P256_P)"
proof -
  obtain x0 x1 x2 x3 x4 x5 x6 x7 x8 where X: "a = [x0, x1, x2, x3, x4, x5, x6, x7, x8]"
    using length9_D [OF assms(2)] by blast
  from carry_cases [OF assms(1)] show ?thesis
    unfolding X
    by (elim insertE emptyE)
       (simp_all add: sm2P256ReduceCarry_def sm2P256Carry_row_def sm2P256Carry_def
          sm2P256ToBigPlain_list sm2P256_P_def)
qed

theorem sm2P256ReduceCarry_row_witness:
  "sm2P256ReduceCarry [1, 2, 3, 4, 5, 6, 7, 8, 9] 3 =
     Some [7, 2, 0x1FFFFD03, 0x1803, 5, 6, 7, 0x6000008, 9]
   \<and> sm2P256ToBigPlain (sm2P256Carry_row 3) = 3 * (2 ^ 257 - 2 * sm2P256_P)"
proof -
  have h1: "unat (3 :: 32 word) \<le> 7" by simp
  have h2: "length [1, 2, 3, 4, 5, 6, 7, 8, 9 :: 32 word] = 9" by simp
  show ?thesis
    using sm2P256ReduceCarry_row [OF h1 h2]
    by (simp add: sm2P256Carry_row_def sm2P256Carry_def)
qed

text \<open>
  The claim as the spec words it fails: row 1 does not denote \<open>2 * p\<close>, and what it
  denotes is not a multiple of \<open>p\<close> at all.
\<close>

theorem sm2P256Carry_row_not_2p:
  "sm2P256ToBigPlain (sm2P256Carry_row 1) \<noteq> 2 * 1 * sm2P256_P
   \<and> sm2P256ToBigPlain (sm2P256Carry_row 1) mod sm2P256_P \<noteq> 0"
  by (simp add: sm2P256Carry_row_def sm2P256Carry_def sm2P256ToBigPlain_list sm2P256_P_def)


section \<open>The scalar buffer\<close>

declare sm2P256GetScalar_loop.simps [simp del] Bytes.simps [simp del]

lemma sm2P256GetScalar_loop_Some:
  assumes "length scalarBytes \<le> length b"
  shows "\<exists>b'. sm2P256GetScalar_loop b scalarBytes i = Some b' \<and> length b' = length b"
  using assms
proof (induction b scalarBytes i rule: sm2P256GetScalar_loop.induct)
  case (1 b scalarBytes i)
  show ?case
  proof (cases "i < length scalarBytes")
    case True
    let ?k = "int (length scalarBytes) - (1 + int i)"
    have k: "0 \<le> ?k" "?k < int (length b)" using True "1.prems" by auto
    have "\<exists>b'. sm2P256GetScalar_loop (b[nat ?k := scalarBytes ! i]) scalarBytes (i + 1) = Some b'
            \<and> length b' = length (b[nat ?k := scalarBytes ! i])"
      using "1.IH" [OF True refl refl] k "1.prems" by simp
    then show ?thesis
      using True k by (subst sm2P256GetScalar_loop.simps) (simp add: Let_def)
  next
    case False
    then show ?thesis by (subst sm2P256GetScalar_loop.simps) simp
  qed
qed

lemma length_Bytes: "n < 256 ^ k \<Longrightarrow> length (Bytes n) \<le> k"
proof (induction k arbitrary: n)
  case 0
  then show ?case by (subst Bytes.simps) simp
next
  case (Suc k)
  show ?case
  proof (cases "n = 0")
    case True
    then show ?thesis by (subst Bytes.simps) simp
  next
    case False
    have "n div 256 < 256 ^ k" using Suc.prems by (simp add: less_mult_imp_div_less mult.commute)
    then have "length (Bytes (n div 256)) \<le> k" by (rule Suc.IH)
    then show ?thesis using False by (subst Bytes.simps) simp
  qed
qed

lemma length_scalarBytes:
  assumes "length a \<le> 32"
  shows "length (if SetBytes a \<ge> sm2P256_N then Bytes (nat (SetBytes a mod sm2P256_N)) else a) \<le> 32"
proof (cases "SetBytes a \<ge> sm2P256_N")
  case True
  have N: "0 < sm2P256_N" "sm2P256_N < 256 ^ 32" by (simp_all add: sm2P256_N_def)
  have "SetBytes a mod sm2P256_N < sm2P256_N" using N(1) by (rule pos_mod_bound)
  then have "SetBytes a mod sm2P256_N < 256 ^ 32" using N(2) by (rule less_trans)
  moreover have "0 \<le> SetBytes a mod sm2P256_N" using N(1) by (rule pos_mod_sign)
  ultimately have "nat (SetBytes a mod sm2P256_N) < 256 ^ 32"
    by (simp add: nat_less_iff)
  then show ?thesis using True by (simp add: length_Bytes)
next
  case False
  then show ?thesis using assms by simp
qed

text \<open>
  Claim C10.  For every byte string \<open>k\<close> of at most 32 bytes, sm2P256GetScalar does not
  panic on its 32-byte buffer, and every index \<open>len(scalarBytes) - (1 + i)\<close> it writes lies
  in \<open>0..31\<close>, whether \<open>k\<close> was reduced modulo \<open>n\<close> or taken as it is.
\<close>

theorem sm2P256GetScalar_in_bounds:
  assumes "length k \<le> 32" "length b = 32"
  shows "(\<exists>b'. sm2P256GetScalar b k = Some b' \<and> length b' = 32)
         \<and> list_all (\<lambda>w. 0 \<le> w \<and> w \<le> 31) (sm2P256GetScalar_writes k)"
proof
  show "\<exists>b'. sm2P256GetScalar b k = Some b' \<and> length b' = 32"
    using sm2P256GetScalar_loop_Some [of _ b 0] length_scalarBytes [OF assms(1)] assms(2)
    by (simp add: sm2P256GetScalar_def Let_def)
  show "list_all (\<lambda>w. 0 \<le> w \<and> w \<le> 31) (sm2P256GetScalar_writes k)"
    using length_scalarBytes [OF assms(1)]
    by (auto simp: sm2P256GetScalar_writes_def Let_def list_all_iff)
qed

theorem sm2P256GetScalar_in_bounds_witness:
  "length [1, 2, 3 :: 8 word] \<le> 32 \<and> length (replicate 32 (0 :: 8 word)) = 32
   \<and> (\<exists>b'. sm2P256GetScalar (replicate 32 0) [1, 2, 3] = Some b' \<and> length b' = 32)
   \<and> list_all (\<lambda>w. 0 \<le> w \<and> w \<le> 31) (sm2P256GetScalar_writes [1, 2, 3])"
proof -
  have h1: "length [1, 2, 3 :: 8 word] \<le> 32" by simp
  have h2: "length (replicate 32 (0 :: 8 word)) = 32" by simp
  show ?thesis using h1 h2 sm2P256GetScalar_in_bounds [OF h1 h2] by blast
qed


section \<open>Point addition: the infinity branches\<close>

lemma upt_0_9: "[0..<9] = [0, 1, 2, 3, 4, 5, 6, 7, 8]"
  by code_simp

lemma list_all_zero_iff:
  assumes "length z = 9"
  shows "list_all (\<lambda>i. z ! i = 0) [0..<9] \<longleftrightarrow> z = replicate 9 (0 :: 32 word)"
proof -
  obtain x0 x1 x2 x3 x4 x5 x6 x7 x8 where z: "z = [x0, x1, x2, x3, x4, x5, x6, x7, x8]"
    using length9_D [OF assms] by blast
  have r: "replicate 9 (0 :: 32 word) = [0, 0, 0, 0, 0, 0, 0, 0, 0]" by code_simp
  show ?thesis unfolding z upt_0_9 r by simp
qed

lemma list_all_pv_iff:
  assumes "length z = 9"
  shows "list_all (\<lambda>i. z ! i = pv ! i) [0..<9] \<longleftrightarrow> z = pv"
proof -
  obtain x0 x1 x2 x3 x4 x5 x6 x7 x8 where z: "z = [x0, x1, x2, x3, x4, x5, x6, x7, x8]"
    using length9_D [OF assms] by blast
  show ?thesis unfolding z upt_0_9 pv_def by simp
qed

text \<open>
  Claim C6 (amended).  In sm2P256PointAdd, if \<open>z1\<close> is all zero or equal limb by limb to
  \<open>pv\<close>, the result is a copy of \<open>(x2, y2, z2)\<close>; if \<open>z2\<close> is all zero or equal to \<open>pv\<close>
  and \<open>z1\<close> is neither, the result is a copy of \<open>(x1, y1, z1)\<close>.
\<close>

theorem sm2P256PointAdd_infinity:
  assumes "length z1 = 9" "length z2 = 9"
  shows "(is_zero_or_pv z1 \<longrightarrow> sm2P256PointAdd x1 y1 z1 x2 y2 z2 = Some (x2, y2, z2))
       \<and> (is_zero_or_pv z2 \<and> \<not> is_zero_or_pv z1 \<longrightarrow>
            sm2P256PointAdd x1 y1 z1 x2 y2 z2 = Some (x1, y1, z1))"
  by (simp add: sm2P256PointAdd_def Let_def list_all_zero_iff [OF assms(1)]
      list_all_pv_iff [OF assms(1)] list_all_zero_iff [OF assms(2)] list_all_pv_iff [OF assms(2)]
      is_zero_or_pv_def sm2P256Dup_def)

theorem sm2P256PointAdd_infinity_witness:
  "sm2P256PointAdd (replicate 9 1) (replicate 9 1) pv (replicate 9 2) (replicate 9 2) (replicate 9 3)
     = Some (replicate 9 2, replicate 9 2, replicate 9 3) \<and>
   sm2P256PointAdd (replicate 9 1) (replicate 9 1) (replicate 9 3) (replicate 9 2) (replicate 9 2) (replicate 9 0)
     = Some (replicate 9 1, replicate 9 1, replicate 9 3)"
proof -
  have l: "length pv = 9" "length (replicate 9 (3 :: 32 word)) = 9"
    "length (replicate 9 (0 :: 32 word)) = 9"
    by (simp_all add: pv_def)
  have p: "is_zero_or_pv pv" "is_zero_or_pv (replicate 9 0)" "\<not> is_zero_or_pv (replicate 9 3)"
    by (simp add: is_zero_or_pv_def, simp add: is_zero_or_pv_def, code_simp)
  show ?thesis
    using sm2P256PointAdd_infinity [OF l(1) l(2), of "replicate 9 1" "replicate 9 1" "replicate 9 2" "replicate 9 2"]
      sm2P256PointAdd_infinity [OF l(2) l(3), of "replicate 9 1" "replicate 9 1" "replicate 9 2" "replicate 9 2"] p
    by blast
qed

text \<open>
  The symmetric half of the claim fails when both points are at infinity: the test of
  \<open>z1\<close> comes first, and the result is the second point.
\<close>

theorem sm2P256PointAdd_both_infinity:
  "sm2P256PointAdd (replicate 9 1) (replicate 9 1) (replicate 9 0)
                   (replicate 9 2) (replicate 9 2) (replicate 9 0)
     = Some (replicate 9 2, replicate 9 2, replicate 9 0) \<and>
   sm2P256PointAdd (replicate 9 1) (replicate 9 1) (replicate 9 0)
                   (replicate 9 2) (replicate 9 2) (replicate 9 0)
     \<noteq> Some (replicate 9 1, replicate 9 1, replicate 9 0)"
  by (simp add: sm2P256PointAdd_def Let_def list_all_zero_iff sm2P256Dup_def)

text \<open>The limbs of \<open>pv\<close> denote \<open>2 * p\<close>.\<close>

lemma pv_value: "sm2P256ToBigPlain pv = 2 * sm2P256_P"
  by (simp add: pv_def sm2P256ToBigPlain_list sm2P256_P_def)



section \<open>Table selection\<close>

lemma unat_index_18:
  fixes index :: "32 word"
  assumes "unat index < 16" "k < 18"
  shows "unat (index * 18 + of_nat k) = 18 * unat index + k"
proof -
  have "unat (index * 18) = unat index * 18"
    using assms(1) by (simp add: unat_word_ariths)
  moreover have "unat (of_nat k :: 32 word) = k"
    using assms(2) by (simp add: unat_of_nat)
  ultimately show ?thesis
    using assms by (simp add: unat_word_ariths)
qed

lemma unat_index_18_9:
  fixes index :: "32 word"
  assumes "unat index < 16" "k < 9"
  shows "unat (index * 18 + 9 + of_nat k) = 18 * unat index + 9 + k"
  using unat_index_18 [OF assms(1), of "9 + k"] assms(2) by (simp add: add.assoc)

lemma fold_update_length:
  "length (fold (\<lambda>j X. X[j := f j]) js X) = length X"
  by (induction js arbitrary: X) simp_all

lemma fold_update_nth:
  "n \<le> length X \<Longrightarrow> j < n \<Longrightarrow> fold (\<lambda>j X. X[j := f j]) [0..<n] X ! j = f j"
proof (induction n)
  case 0
  then show ?case by simp
next
  case (Suc n)
  show ?case
  proof (cases "j = n")
    case True
    then show ?thesis using Suc.prems by (simp add: fold_update_length)
  next
    case False
    then have "j < n" using Suc.prems by simp
    then show ?thesis using Suc by simp
  qed
qed

lemma sm2P256SelectAffinePoint_loop_Some:
  assumes "\<forall>j\<in>set js. unat (xbase + of_nat j) < length table \<and> unat (ybase + of_nat j) < length table"
  shows "sm2P256SelectAffinePoint_loop table xbase ybase js (xOut, yOut, reads) =
     Some (fold (\<lambda>j X. X[j := table ! unat (xbase + of_nat j)]) js xOut,
           fold (\<lambda>j Y. Y[j := table ! unat (ybase + of_nat j)]) js yOut,
           reads @ concat (map (\<lambda>j. [unat (xbase + of_nat j), unat (ybase + of_nat j)]) js))"
  using assms by (induction js arbitrary: xOut yOut reads) (simp_all add: Let_def)

lemma sm2P256SelectJacobianPoint_loop_Some:
  assumes "unat index < length table"
  shows "sm2P256SelectJacobianPoint_loop table index js (xOut, yOut, zOut, reads) =
     Some (fold (\<lambda>j X. X[j := table ! unat index ! 0 ! j]) js xOut,
           fold (\<lambda>j Y. Y[j := table ! unat index ! 1 ! j]) js yOut,
           fold (\<lambda>j Z. Z[j := table ! unat index ! 2 ! j]) js zOut,
           reads @ concat (map (\<lambda>j. [(unat index, 0, j), (unat index, 1, j), (unat index, 2, j)]) js))"
  using assms by (induction js arbitrary: xOut yOut zOut reads) (simp_all add: Let_def)

lemma set_affine_reads:
  "set (concat (map (\<lambda>j. [a + j, a + 9 + j]) [0..<9])) = {a..<a + 18}" (is "?L = ?R")
proof
  show "?L \<subseteq> ?R" by auto
  show "?R \<subseteq> ?L"
  proof
    fix r assume "r \<in> ?R"
    then have r: "a \<le> r" "r < a + 18" by auto
    show "r \<in> ?L"
    proof (cases "r < a + 9")
      case True
      then have "r - a < 9" "r = a + (r - a)" using r by auto
      then show ?thesis by (auto intro!: bexI [of _ "r - a"])
    next
      case False
      then have "r - a - 9 < 9" "r = a + 9 + (r - a - 9)" using r by auto
      then show ?thesis by (auto intro!: bexI [of _ "r - a - 9"])
    qed
  qed
qed

lemma set_jacobian_reads:
  "set (concat (map (\<lambda>j. [(i, 0, j), (i, 1, j), (i, 2 :: nat, j)]) [0..<9]))
     = {i} \<times> {0, 1, 2} \<times> {0..<9::nat}"
  by auto

text \<open>
  Claim C3 (amended).  For an index below 16, sm2P256SelectAffinePoint and
  sm2P256SelectJacobianPoint return the entry of the table at that index, and the positions
  of the table they read are exactly the 18 limbs, respectively the 27 limbs, of that entry:
  the table is read by direct indexing, and which positions are read is determined by the
  index.
\<close>

theorem select_reads_selected_entry:
  assumes "unat index < 16" "288 \<le> length table" "length jtable = 16"
    "length xOut = 9" "length yOut = 9" "length zOut = 9"
  shows "(\<exists>x y reads. sm2P256SelectAffinePoint xOut yOut table index = Some (x, y, reads)
            \<and> (\<forall>j<9. x ! j = table ! (18 * unat index + j) \<and> y ! j = table ! (18 * unat index + 9 + j))
            \<and> set reads = {18 * unat index ..< 18 * unat index + 18})
       \<and> (\<exists>x y z reads. sm2P256SelectJacobianPoint xOut yOut zOut jtable index = Some (x, y, z, reads)
            \<and> (\<forall>j<9. x ! j = jtable ! unat index ! 0 ! j \<and> y ! j = jtable ! unat index ! 1 ! j
                      \<and> z ! j = jtable ! unat index ! 2 ! j)
            \<and> set reads = {unat index} \<times> {0, 1, 2} \<times> {0..<9})"
proof
  have r: "\<forall>j\<in>set [0..<9]. unat (index * 18 + of_nat j) < length table
      \<and> unat (index * 18 + 9 + of_nat j) < length table"
    using assms(1,2) by (simp add: unat_index_18 unat_index_18_9)
  have m: "map (\<lambda>j. [unat (index * 18 + of_nat j), unat (index * 18 + 9 + of_nat j)]) [0..<9]
      = map (\<lambda>j. [18 * unat index + j, 18 * unat index + 9 + j]) [0..<9]"
    using assms(1) by (simp add: unat_index_18 unat_index_18_9)
  let ?x = "fold (\<lambda>j X. X[j := table ! unat (index * 18 + of_nat j)]) [0..<9] xOut"
  let ?y = "fold (\<lambda>j Y. Y[j := table ! unat (index * 18 + 9 + of_nat j)]) [0..<9] yOut"
  have eq: "sm2P256SelectAffinePoint xOut yOut table index =
      Some (?x, ?y, concat (map (\<lambda>j. [18 * unat index + j, 18 * unat index + 9 + j]) [0..<9]))"
    unfolding sm2P256SelectAffinePoint_def Let_def assms(4)
      sm2P256SelectAffinePoint_loop_Some [OF r] append_Nil m ..
  have nx: "\<forall>j<9. ?x ! j = table ! (18 * unat index + j) \<and> ?y ! j = table ! (18 * unat index + 9 + j)"
    using assms(1,4,5) by (simp add: fold_update_nth unat_index_18 unat_index_18_9)
  show "\<exists>x y reads. sm2P256SelectAffinePoint xOut yOut table index = Some (x, y, reads)
            \<and> (\<forall>j<9. x ! j = table ! (18 * unat index + j) \<and> y ! j = table ! (18 * unat index + 9 + j))
            \<and> set reads = {18 * unat index ..< 18 * unat index + 18}"
    using nx set_affine_reads [of "18 * unat index"] unfolding eq by blast
  have i: "unat index < length jtable" using assms(1,3) by simp
  let ?x = "fold (\<lambda>j X. X[j := jtable ! unat index ! 0 ! j]) [0..<9] xOut"
  let ?y = "fold (\<lambda>j X. X[j := jtable ! unat index ! 1 ! j]) [0..<9] yOut"
  let ?z = "fold (\<lambda>j X. X[j := jtable ! unat index ! 2 ! j]) [0..<9] zOut"
  have eq: "sm2P256SelectJacobianPoint xOut yOut zOut jtable index =
      Some (?x, ?y, ?z,
        concat (map (\<lambda>j. [(unat index, 0, j), (unat index, 1, j), (unat index, 2, j)]) [0..<9]))"
    unfolding sm2P256SelectJacobianPoint_def assms(4)
      sm2P256SelectJacobianPoint_loop_Some [OF i] append_Nil ..
  have nx: "\<forall>j<9. ?x ! j = jtable ! unat index ! 0 ! j \<and> ?y ! j = jtable ! unat index ! 1 ! j
      \<and> ?z ! j = jtable ! unat index ! 2 ! j"
    using assms(4,5,6) by (simp add: fold_update_nth)
  show "\<exists>x y z reads. sm2P256SelectJacobianPoint xOut yOut zOut jtable index = Some (x, y, z, reads)
            \<and> (\<forall>j<9. x ! j = jtable ! unat index ! 0 ! j \<and> y ! j = jtable ! unat index ! 1 ! j
                      \<and> z ! j = jtable ! unat index ! 2 ! j)
            \<and> set reads = {unat index} \<times> {0, 1, 2} \<times> {0..<9}"
    using nx set_jacobian_reads [of "unat index"] unfolding eq by blast
qed

theorem select_reads_selected_entry_witness:
  "unat (2 :: 32 word) < 16 \<and> 288 \<le> length (replicate 288 (7 :: 32 word))
   \<and> (\<exists>x y reads. sm2P256SelectAffinePoint (replicate 9 0) (replicate 9 0) (replicate 288 7) 2
        = Some (x, y, reads)
        \<and> (\<forall>j<9. x ! j = replicate 288 7 ! (18 * unat (2 :: 32 word) + j)
                  \<and> y ! j = replicate 288 7 ! (18 * unat (2 :: 32 word) + 9 + j))
        \<and> set reads = {18 * unat (2 :: 32 word) ..< 18 * unat (2 :: 32 word) + 18})
   \<and> (\<exists>x y z reads. sm2P256SelectJacobianPoint (replicate 9 0) (replicate 9 0) (replicate 9 0)
          (replicate 16 (replicate 3 (replicate 9 7))) 2 = Some (x, y, z, reads)
        \<and> (\<forall>j<9. x ! j = replicate 16 (replicate 3 (replicate 9 7)) ! unat (2 :: 32 word) ! 0 ! j
                  \<and> y ! j = replicate 16 (replicate 3 (replicate 9 7)) ! unat (2 :: 32 word) ! 1 ! j
                  \<and> z ! j = replicate 16 (replicate 3 (replicate 9 7)) ! unat (2 :: 32 word) ! 2 ! j)
        \<and> set reads = {unat (2 :: 32 word)} \<times> {0, 1, 2} \<times> {0..<9})"
proof -
  have h1: "unat (2 :: 32 word) < 16" by simp
  have h2: "288 \<le> length (replicate 288 (7 :: 32 word))" by simp
  have h3: "length (replicate 16 (replicate 3 (replicate 9 (7 :: 32 word)))) = 16" by simp
  have h4: "length (replicate 9 (0 :: 32 word)) = 9" by simp
  from select_reads_selected_entry [OF h1 h2 h3 h4 h4 h4] h1 h2
  show ?thesis by (intro conjI) (erule conjE, assumption)+
qed

text \<open>
  The claim as the spec words it fails: the positions read for index 1 and for index 2
  differ, and neither selection touches every entry of the table.
\<close>

theorem select_reads_depend_on_index:
  "map_option (\<lambda>(x, y, reads). reads)
     (sm2P256SelectAffinePoint (replicate 9 0) (replicate 9 0) (replicate 288 0) 1)
   = Some [18, 27, 19, 28, 20, 29, 21, 30, 22, 31, 23, 32, 24, 33, 25, 34, 26, 35]
   \<and> map_option (\<lambda>(x, y, reads). reads)
     (sm2P256SelectAffinePoint (replicate 9 0) (replicate 9 0) (replicate 288 0) 2)
   = Some [36, 45, 37, 46, 38, 47, 39, 48, 40, 49, 41, 50, 42, 51, 43, 52, 44, 53]
   \<and> map_option (\<lambda>(x, y, z, reads). reads)
     (sm2P256SelectJacobianPoint (replicate 9 0) (replicate 9 0) (replicate 9 0)
        (replicate 16 (replicate 3 (replicate 9 0))) 1)
   \<noteq> map_option (\<lambda>(x, y, z, reads). reads)
     (sm2P256SelectJacobianPoint (replicate 9 0) (replicate 9 0) (replicate 9 0)
        (replicate 16 (replicate 3 (replicate 9 0))) 2)"
  by code_simp


section \<open>The two-way routines against the one-way routines\<close>

lemma unpack_carries:
  fixes carry carry2 :: "32 word"
  shows "uint32 (uint64 carry OR push_bit 32 (uint64 carry2)) = carry"
    "uint32 (drop_bit 32 (uint64 carry OR push_bit 32 (uint64 carry2))) = carry2"
  by (rule bit_word_eqI; auto simp: bit_simps dest: bit_imp_le_length)+

lemma sm2P256ReduceDegree2Way_eq:
  "sm2P256ReduceDegree2Way b b2 =
     do { c \<leftarrow> sm2P256ReduceDegree b; c2 \<leftarrow> sm2P256ReduceDegree b2; Some (c, c2) }"
proof -
  obtain a carry where d1: "sm2P256DivideByR (sm2P256ReduceDegree_tmp64 b) = (a, carry)"
    by (cases "sm2P256DivideByR (sm2P256ReduceDegree_tmp64 b)")
  obtain a2 carry2 where d2: "sm2P256DivideByR (sm2P256ReduceDegree_tmp64 b2) = (a2, carry2)"
    by (cases "sm2P256DivideByR (sm2P256ReduceDegree_tmp64 b2)")
  show ?thesis
    unfolding sm2P256ReduceDegree2Way_def asm_sm2ReduceDegree_2way_def sm2P256ReduceDegree_def
      Let_def d1 d2 prod.case unpack_carries ..
qed

text \<open>
  Claim C8.  For all inputs, sm2P256Mul2Way gives the results of sm2P256Mul on the first
  and on the second pair of operands, and sm2P256Square2Way the results of sm2P256Square on
  the first and on the second operand: the two-way routines cannot be told from two
  one-way calls in sequence.  The assembly kernels are the ones modelled from the spec.
\<close>

theorem two_way_eq_sequential:
  "sm2P256Mul2Way a1 b1 a2 b2 =
     do { c \<leftarrow> sm2P256Mul a1 b1; c2 \<leftarrow> sm2P256Mul a2 b2; Some (c, c2) }
   \<and> sm2P256Square2Way a a2 =
     do { b \<leftarrow> sm2P256Square a; b2 \<leftarrow> sm2P256Square a2; Some (b, b2) }"
proof
  have r: "replicate 17 (0 :: 64 word) = [0, 0, 0, 0, 0, 0, 0, 0, 0, 0, 0, 0, 0, 0, 0, 0, 0]"
    by (simp add: numeral_eq_Suc)
  have t1: "(take 9 ((take 8 (sm2P256Mul_tmp x y) @ drop 8 (replicate 17 0))[8 := sm2P256Mul_tmp x y ! 8])
      @ drop 9 (sm2P256Mul_tmp x y)) = sm2P256Mul_tmp x y" for x y
    unfolding r by (simp add: sm2P256Mul_tmp_def)
  have e8: "sm2P256Mul_tmp x y ! 8 = push_bit 1 (uint64 (x ! 1) * uint64 (y ! 7) + uint64 (x ! 3) * uint64 (y ! 5) + uint64 (x ! 5) * uint64 (y ! 3) + uint64 (x ! 7) * uint64 (y ! 1)) + uint64 (x ! 0) * uint64 (y ! 8) + uint64 (x ! 2) * uint64 (y ! 6) + uint64 (x ! 4) * uint64 (y ! 4) + uint64 (x ! 6) * uint64 (y ! 2) + uint64 (x ! 8) * uint64 (y ! 0)" for x y
    by (simp add: sm2P256Mul_tmp_def)
  show "sm2P256Mul2Way a1 b1 a2 b2 =
     do { c \<leftarrow> sm2P256Mul a1 b1; c2 \<leftarrow> sm2P256Mul a2 b2; Some (c, c2) }"
    unfolding sm2P256Mul2Way_def asm_sm2P256Mul2Way1_def asm_sm2P256Mul2Way2_def Let_def prod.case
      e8 [symmetric] t1 sm2P256ReduceDegree2Way_eq sm2P256Mul_def ..
  show "sm2P256Square2Way a a2 =
     do { b \<leftarrow> sm2P256Square a; b2 \<leftarrow> sm2P256Square a2; Some (b, b2) }"
    by (simp add: sm2P256Square2Way_def asm_sm2P256Square2Way_def sm2P256ReduceDegree2Way_eq
        sm2P256Square_def)
qed


end
